theory Spec2Isabelle
  imports Main
begin

section \<open>The parser tree of jedi/parser/representation.py\<close>

text \<open>
  The module builds a concrete syntax tree out of two kinds of objects: leaves
  (class \<open>_Leaf\<close> and its subclasses \<open>Name\<close>, \<open>Literal\<close>, \<open>Operator\<close>,
  \<open>Keyword\<close>, \<open>Whitespace\<close>) and interior objects (class \<open>Simple\<close> and its
  subclasses), which hold an ordered list of children.  Exceptions of the Python
  code are values of the type \<open>error\<close>; a function that may raise returns
  \<open>error + 'a\<close> with \<open>Inl\<close> for the raise.
\<close>

datatype error = TypeError | IndexError | AttributeError | LookupError
  | RecursionError | StopIteration

text \<open>
  A position is the pair \<open>(line, column)\<close>.  The line of a \<open>start_pos\<close> may be
  \<open>None\<close> in the source (\<open>filter_after_position\<close> tests for it), so it is an
  option here; the column is an integer.
\<close>

type_synonym position = "int \<times> int"
type_synonym start_position = "int option \<times> int"

datatype leaf_kind = Name | Literal | Operator | Keyword | Whitespace

text \<open>The slots of \<open>_Leaf\<close>: \<open>value\<close>, \<open>start_pos\<close>, \<open>prefix\<close>.\<close>

record leaf =
  leaf_value :: string
  leaf_start_pos :: start_position
  leaf_prefix :: string

text \<open>
  Modelled from the spec: the grammar symbols of \<open>python_symbols\<close>
  (jedi.parser.pytree is not part of the sources at hand).  \<open>is_node\<close> compares
  \<open>getattr(python_symbols, symbol_name)\<close> with \<open>node.type\<close>; the spec calls
  \<open>type\<close> a grammar-symbol tag, so the tag is the symbol itself and distinct
  names are distinct tags.  The symbols named in the source are listed; every
  other one is \<open>other_symbol\<close>.
\<close>

datatype symbol = testlist_star_expr | testlist_comp | atom | power_symbol | trailer
  | suite | simple_stmt | typedargslist | tfpdef | other_symbol nat

text \<open>
  The subclasses of \<open>Simple\<close> that the initialiser \<open>Simple.__init__(children)\<close>
  can build.  \<open>Node\<close> carries its \<open>type\<close>.
\<close>

datatype simple_class = Node symbol | ExprStmt | ArrayStmt | Import
  | KeywordStatement | GlobalStmt | ReturnStmt | SubModule | Class | Function

datatype tree = Leaf leaf_kind leaf | Simple simple_class "tree list"

text \<open>\<open>is_node(node, symbol_name)\<close>: an instance of \<open>Node\<close> whose type is the symbol.\<close>

fun is_node :: "tree \<Rightarrow> symbol \<Rightarrow> bool" where
  "is_node (Simple (Node t) ch) s = (t = s)"
| "is_node _ s = False"

subsection \<open>Source text of a tree\<close>

text \<open>
  \<open>_Leaf.get_code\<close> returns \<open>self.prefix + self.value\<close>; \<open>Simple.get_code\<close>
  returns \<open>"".join(c.get_code() for c in self.children)\<close>.
\<close>

fun get_code :: "tree \<Rightarrow> string" where
  "get_code (Leaf k l) = leaf_prefix l @ leaf_value l"
| "get_code (Simple c ch) = concat (map get_code ch)"

text \<open>The leaves of a tree from left to right.\<close>

fun leaves :: "tree \<Rightarrow> leaf list" where
  "leaves (Leaf k l) = [l]"
| "leaves (Simple c ch) = concat (map leaves ch)"

text \<open>
  Modelled from the spec: the tokenizer and the parser, which are external to
  the sources at hand.  The spec says that the tokenizer hands over an ordered
  sequence of tokens, that tokens become leaves, and that every leaf's prefix
  captures all whitespace and comments since the previous leaf.  So a tree is a
  parse of the text \<open>S\<close> when its leaves, read from left to right, are tokens
  whose prefixes and values spell \<open>S\<close>.
\<close>

definition parse_of :: "string \<Rightarrow> tree \<Rightarrow> bool" where
  "parse_of S root = (concat (map (\<lambda>l. leaf_prefix l @ leaf_value l) (leaves root)) = S)"

subsection \<open>Relocating a tree\<close>

text \<open>
  \<open>Simple.move\<close> walks the children in order.  A leaf child gets the new
  \<open>start_pos\<close> \<open>(start_pos[0] + line_offset, start_pos[1] + column_offset)\<close>;
  adding to a \<open>None\<close> line raises TypeError.  Any other child is moved by its
  own \<open>move\<close>.  The method mutates in place, so the model returns the tree as
  it is left behind together with the exception, if one was raised: leaves
  visited before a raise stay moved.  A leaf itself has no method \<open>move\<close>.
\<close>

definition move_leaf :: "int \<Rightarrow> int \<Rightarrow> leaf \<Rightarrow> error + leaf" where
  "move_leaf line_offset column_offset l =
     (case fst (leaf_start_pos l) of
        None \<Rightarrow> Inl TypeError
      | Some line \<Rightarrow>
          Inr (l\<lparr>leaf_start_pos :=
                  (Some (line + line_offset), snd (leaf_start_pos l) + column_offset)\<rparr>))"

fun move :: "int \<Rightarrow> int \<Rightarrow> tree \<Rightarrow> tree \<times> error option"
  and move_children :: "int \<Rightarrow> int \<Rightarrow> tree list \<Rightarrow> tree list \<times> error option" where
  "move lo co (Leaf k l) = (Leaf k l, Some AttributeError)"
| "move lo co (Simple c ch) =
     (case move_children lo co ch of (ch', e) \<Rightarrow> (Simple c ch', e))"
| "move_children lo co [] = ([], None)"
| "move_children lo co (Leaf k l # cs) =
     (case move_leaf lo co l of
        Inl e \<Rightarrow> (Leaf k l # cs, Some e)
      | Inr l' \<Rightarrow>
          (case move_children lo co cs of (cs', e) \<Rightarrow> (Leaf k l' # cs', e)))"
| "move_children lo co (Simple c ch # cs) =
     (case move lo co (Simple c ch) of
        (t', Some e) \<Rightarrow> (t' # cs, Some e)
      | (t', None) \<Rightarrow>
          (case move_children lo co cs of (cs', e) \<Rightarrow> (t' # cs', e)))"

text \<open>
  What \<open>move\<close> must leave alone: the tree with every \<open>start_pos\<close> blanked, that
  is the child structure, the classes, and each leaf's kind, value and prefix.
\<close>

fun erase_pos :: "tree \<Rightarrow> tree" where
  "erase_pos (Leaf k l) = Leaf k (l\<lparr>leaf_start_pos := (None, 0)\<rparr>)"
| "erase_pos (Simple c ch) = Simple c (map erase_pos ch)"

text \<open>The tree with every leaf shifted, which is what a \<open>move\<close> without a raise produces.\<close>

fun shifted :: "int \<Rightarrow> int \<Rightarrow> tree \<Rightarrow> tree" where
  "shifted lo co (Leaf k l) =
     Leaf k (l\<lparr>leaf_start_pos :=
       (map_option (\<lambda>line. line + lo) (fst (leaf_start_pos l)), snd (leaf_start_pos l) + co)\<rparr>)"
| "shifted lo co (Simple c ch) = Simple c (map (shifted lo co) ch)"

subsection \<open>Positions of trees and the visibility filter\<close>

text \<open>
  A leaf stores \<open>start_pos\<close>; \<open>Simple.start_pos\<close> is \<open>self.children[0].start_pos\<close>,
  an IndexError when there is no child.
\<close>

fun start_pos :: "tree \<Rightarrow> error + start_position" where
  "start_pos (Leaf k l) = Inr (leaf_start_pos l)"
| "start_pos (Simple c []) = Inl IndexError"
| "start_pos (Simple c (x # xs)) = start_pos x"

text \<open>Python's order on tuples of two integers.\<close>

fun tuple_less :: "position \<Rightarrow> position \<Rightarrow> bool" where
  "tuple_less (l1, c1) (l2, c2) = (l1 < l2 \<or> (l1 = l2 \<and> c1 < c2))"

text \<open>
  The test \<open>n.start_pos[0] is not None and n.start_pos < position\<close> of
  \<open>filter_after_position\<close>.
\<close>

fun starts_before :: "start_position \<Rightarrow> position \<Rightarrow> bool" where
  "starts_before (None, c) p = False"
| "starts_before (Some l, c) p = tuple_less (l, c) p"

text \<open>
  \<open>filter_after_position(names, position)\<close>: the list itself when \<open>position\<close> is
  \<open>None\<close>, otherwise a new list built by the loop over \<open>names\<close>.
\<close>

fun filter_loop :: "tree list \<Rightarrow> position \<Rightarrow> error + tree list" where
  "filter_loop [] p = Inr []"
| "filter_loop (n # ns) p =
     (case start_pos n of
        Inl e \<Rightarrow> Inl e
      | Inr sp \<Rightarrow>
          (case filter_loop ns p of
             Inl e \<Rightarrow> Inl e
           | Inr names_new \<Rightarrow> Inr (if starts_before sp p then n # names_new else names_new)))"

fun filter_after_position :: "tree list \<Rightarrow> position option \<Rightarrow> error + tree list" where
  "filter_after_position names None = Inr names"
| "filter_after_position names (Some p) = filter_loop names p"

text \<open>The start position of a leaf, for stating which names are kept.\<close>

fun is_leaf :: "tree \<Rightarrow> bool" where
  "is_leaf (Leaf k l) = True"
| "is_leaf (Simple c ch) = False"

fun leaf_starts_before :: "position \<Rightarrow> tree \<Rightarrow> bool" where
  "leaf_starts_before p (Leaf k l) = starts_before (leaf_start_pos l) p"
| "leaf_starts_before p (Simple c ch) = False"

subsection \<open>Array\<close>

text \<open>
  \<open>Array.type\<close> is one of \<open>NOARRAY\<close>, \<open>TUPLE\<close>, \<open>LIST\<close>, \<open>DICT\<close>, \<open>SET\<close>; the
  object keeps two lists, \<open>values\<close> and \<open>keys\<close>.
\<close>

datatype array_type = NOARRAY | TUPLE | LIST | DICT | SET

record 'a array =
  array_type :: array_type
  array_values :: "'a list"
  array_keys :: "'a list"

text \<open>Python's \<open>xs[key]\<close> for an integer key: negative keys count from the end.\<close>

definition list_getitem :: "'a list \<Rightarrow> int \<Rightarrow> error + 'a" where
  "list_getitem xs key =
     (let n = int (length xs); j = (if key < 0 then n + key else key)
      in if 0 \<le> j \<and> j < n then Inr (xs ! nat j) else Inl IndexError)"

text \<open>\<open>Array.__getitem__\<close>, \<open>Array.__iter__\<close> and \<open>Array.items\<close>.\<close>

definition array_getitem :: "'a array \<Rightarrow> int \<Rightarrow> error + 'a" where
  "array_getitem a key =
     (if array_type a = DICT then Inl TypeError else list_getitem (array_values a) key)"

definition array_iter :: "'a array \<Rightarrow> error + 'a list" where
  "array_iter a = (if array_type a = DICT then Inl TypeError else Inr (array_values a))"

definition array_items :: "'a array \<Rightarrow> error + ('a \<times> 'a) list" where
  "array_items a =
     (if array_type a \<noteq> DICT then Inl TypeError else Inr (zip (array_keys a) (array_values a)))"

subsection \<open>Comparing tree objects with strings\<close>

text \<open>
  \<open>Operator.__eq__\<close> and \<open>Keyword.__eq__\<close> compare \<open>self.value\<close> with a string
  operand; no other class of the tree defines \<open>__eq__\<close>, so any other object is
  unequal to every string.  \<open>__ne__\<close> is the negation in every class.
\<close>

fun eq_str :: "tree \<Rightarrow> string \<Rightarrow> bool" where
  "eq_str (Leaf Operator l) s = (leaf_value l = s)"
| "eq_str (Leaf Keyword l) s = (leaf_value l = s)"
| "eq_str (Leaf k l) s = False"
| "eq_str (Simple c ch) s = False"

subsection \<open>Names bound by an expression statement\<close>

text \<open>
  The inner function \<open>check_tuple\<close> of \<open>Statement.get_defined_names\<close>.  Its
  \<open>power\<close> branch does not recurse: it reads \<open>current.children[-2]\<close>, and unless
  that is \<open>**\<close> it takes the last child as \<open>trailer\<close> and, when
  \<open>trailer.children[0] == '.'\<close>, returns \<open>trailer.children[1]\<close>.  Reading
  \<open>children\<close> of a leaf is an AttributeError, an index out of range an
  IndexError.
\<close>

definition power_names :: "tree list \<Rightarrow> error + tree list" where
  "power_names ch =
     (case list_getitem ch (- 2) of
        Inl e \<Rightarrow> Inl e
      | Inr c \<Rightarrow>
          if \<not> eq_str c ''**'' then
            (case last ch of
               Leaf k l \<Rightarrow> Inl AttributeError
             | Simple tc tch \<Rightarrow>
                 (case tch of
                    [] \<Rightarrow> Inl IndexError
                  | t0 # rest \<Rightarrow>
                      if eq_str t0 ''.'' then
                        (case rest of [] \<Rightarrow> Inl IndexError | t1 # _ \<Rightarrow> Inr [t1])
                      else Inr []))
          else Inr [])"

text \<open>
  \<open>check_tuple_stride\<close> is the loop \<open>for child in current.children[::2]\<close>, which
  visits every second child and appends what \<open>check_tuple\<close> returns for it.
\<close>

fun check_tuple :: "tree \<Rightarrow> error + tree list"
  and check_tuple_stride :: "tree list \<Rightarrow> error + tree list" where
  "check_tuple (Leaf k l) = Inr [Leaf k l]"
| "check_tuple (Simple c ch) =
     (if c = Node testlist_star_expr \<or> c = Node testlist_comp then check_tuple_stride ch
      else if c = Node atom then
        (case ch of
           c0 # c1 # rest \<Rightarrow> check_tuple c1
         | _ \<Rightarrow> Inl IndexError)
      else if c = Node power_symbol then power_names ch
      else Inr [Simple c ch])"
| "check_tuple_stride [] = Inr []"
| "check_tuple_stride [child] = check_tuple child"
| "check_tuple_stride (child # separator # rest) =
     (case check_tuple child of
        Inl e \<Rightarrow> Inl e
      | Inr names \<Rightarrow>
          (case check_tuple_stride rest of
             Inl e \<Rightarrow> Inl e
           | Inr others \<Rightarrow> Inr (names @ others)))"

text \<open>
  \<open>Statement.get_defined_names\<close> runs \<open>i\<close> over \<open>range(0, len(children) - 2, 2)\<close>:
  as long as three children remain, it tests \<open>children[i + 1].value == '='\<close>
  (an AttributeError when that child is not a leaf) and, if so, chains
  \<open>check_tuple(children[i])\<close>.  The code after the \<open>return\<close> is unreachable.
\<close>

fun statement_get_defined_names :: "tree list \<Rightarrow> error + tree list" where
  "statement_get_defined_names (target # operator # next_child # rest) =
     (case operator of
        Simple c ch \<Rightarrow> Inl AttributeError
      | Leaf k l \<Rightarrow>
          if leaf_value l = ''='' then
            (case check_tuple target of
               Inl e \<Rightarrow> Inl e
             | Inr names \<Rightarrow>
                 (case statement_get_defined_names (next_child # rest) of
                    Inl e \<Rightarrow> Inl e
                  | Inr others \<Rightarrow> Inr (names @ others)))
          else statement_get_defined_names (next_child # rest))"
| "statement_get_defined_names children = Inr []"

subsection \<open>Names bound by an import\<close>

text \<open>
  \<open>Import.get_defined_names\<close> returns \<open>self.children[1:]\<close> when
  \<open>self.children[0] == 'import'\<close> and \<open>[self.children[-1]]\<close> otherwise; the rest
  of the method body follows these returns and is never run.
\<close>

fun import_get_defined_names :: "tree list \<Rightarrow> error + tree list" where
  "import_get_defined_names [] = Inl IndexError"
| "import_get_defined_names (c0 # rest) =
     (if eq_str c0 ''import'' then Inr rest else Inr [last (c0 # rest)])"

subsection \<open>Parameters of a function\<close>

text \<open>
  A \<open>Param\<close> keeps \<open>tfpdef\<close>, \<open>default\<close> and \<open>stars\<close>.  \<open>Param.get_name\<close> is
  \<open>tfpdef.children[0]\<close> for a \<open>tfpdef\<close> node and \<open>tfpdef\<close> itself otherwise.
\<close>

record param =
  param_tfpdef :: tree
  param_default :: "tree option"
  param_stars :: nat

fun get_name :: "tree \<Rightarrow> error + tree" where
  "get_name (Simple (Node tfpdef) []) = Inl IndexError"
| "get_name (Simple (Node tfpdef) (c0 # rest)) = Inr c0"
| "get_name t = Inr t"

text \<open>
  The initialiser of \<open>Param\<close> calls \<open>get_name\<close> to set the name's parent, so a
  \<open>Param\<close> exists only when \<open>get_name\<close> does not raise.
\<close>

definition new_param :: "tree \<Rightarrow> tree option \<Rightarrow> nat \<Rightarrow> error + param" where
  "new_param n dflt stars =
     (case get_name n of
        Inl e \<Rightarrow> Inl e
      | Inr nm \<Rightarrow> Inr \<lparr>param_tfpdef = n, param_default = dflt, param_stars = stars\<rparr>)"

text \<open>
  The loop of \<open>Function._params\<close> over the children of a \<open>typedargslist\<close>.  The
  list argument is what the iterator has left.  \<open>next(iterator)\<close> on an
  exhausted iterator raises StopIteration, \<open>next(iterator, None)\<close> does not.
  \<open>params_after_stars n stars it\<close> is the loop body from \<open>op = next(iterator, None)\<close>
  on, followed by the remaining rounds.
\<close>

function params_loop :: "tree list \<Rightarrow> error + param list"
  and params_after_stars :: "tree \<Rightarrow> nat \<Rightarrow> tree list \<Rightarrow> error + param list" where
  "params_loop [] = Inr []"
| "params_loop (n # it) =
     (if eq_str n ''*'' \<or> eq_str n ''**'' then
        (case it of
           [] \<Rightarrow> Inl StopIteration
         | n' # it' \<Rightarrow>
             params_after_stars n' (case n of Leaf k l \<Rightarrow> length (leaf_value l) | _ \<Rightarrow> 0) it')
      else params_after_stars n 0 it)"
| "params_after_stars n stars [] =
     (case new_param n None stars of Inl e \<Rightarrow> Inl e | Inr p \<Rightarrow> Inr [p])"
| "params_after_stars n stars (op # it) =
     (if eq_str op ''='' then
        (case it of
           [] \<Rightarrow> Inl StopIteration
         | dflt # it' \<Rightarrow>
             (case new_param n (Some dflt) stars of
                Inl e \<Rightarrow> Inl e
              | Inr p \<Rightarrow>
                  (case params_loop (drop 1 it') of
                     Inl e \<Rightarrow> Inl e
                   | Inr ps \<Rightarrow> Inr (p # ps))))
      else
        (case new_param n None stars of
           Inl e \<Rightarrow> Inl e
         | Inr p \<Rightarrow>
             (case params_loop it of
                Inl e \<Rightarrow> Inl e
              | Inr ps \<Rightarrow> Inr (p # ps))))"
  by pat_completeness auto
termination
  by (relation "measure (\<lambda>x. case x of Inl it \<Rightarrow> 2 * length it | Inr (n, stars, it) \<Rightarrow> 2 * length it + 1)")
     auto

text \<open>
  \<open>Function._params\<close>: \<open>node = self.children[2].children[1:-1]\<close>; no parameter
  when \<open>node\<close> is empty, the loop when \<open>node[0]\<close> is a \<open>typedargslist\<close>, and a
  single \<open>Param(node[0], self)\<close> otherwise.
\<close>

definition params :: "tree list \<Rightarrow> error + param list" where
  "params children =
     (case list_getitem children 2 of
        Inl e \<Rightarrow> Inl e
      | Inr (Leaf k l) \<Rightarrow> Inl AttributeError
      | Inr (Simple c ch) \<Rightarrow>
          (case butlast (tl ch) of
             [] \<Rightarrow> Inr []
           | n0 # ns \<Rightarrow>
               (case n0 of
                  Simple (Node typedargslist) args \<Rightarrow> params_loop args
                | _ \<Rightarrow>
                    (case new_param n0 None 0 of Inl e \<Rightarrow> Inl e | Inr p \<Rightarrow> Inr [p]))))"

subsection \<open>Names defined in a scope\<close>

text \<open>
  The list comprehension of \<open>Scope.get_defined_names\<close> over the children of a
  \<open>simple_stmt\<close>: an \<open>ExprStmt\<close> answers with \<open>Statement.get_defined_names\<close>, an
  \<open>Import\<close> with its own method, a \<open>KeywordStatement\<close> has no such method
  (AttributeError), and any other child is skipped by the \<open>isinstance\<close> test.
\<close>

fun simple_stmt_names :: "tree list \<Rightarrow> error + tree list" where
  "simple_stmt_names [] = Inr []"
| "simple_stmt_names (s # ss) =
     (case s of
        Simple ExprStmt ch \<Rightarrow>
          (case statement_get_defined_names ch of
             Inl e \<Rightarrow> Inl e
           | Inr names \<Rightarrow>
               (case simple_stmt_names ss of Inl e \<Rightarrow> Inl e | Inr others \<Rightarrow> Inr (names @ others)))
      | Simple Import ch \<Rightarrow>
          (case import_get_defined_names ch of
             Inl e \<Rightarrow> Inl e
           | Inr names \<Rightarrow>
               (case simple_stmt_names ss of Inl e \<Rightarrow> Inl e | Inr others \<Rightarrow> Inr (names @ others)))
      | Simple KeywordStatement ch \<Rightarrow> Inl AttributeError
      | _ \<Rightarrow> simple_stmt_names ss)"

text \<open>
  The loop \<open>for c in children\<close> of \<open>Scope.get_defined_names\<close>: the names of a
  \<open>simple_stmt\<close>, and \<open>c.name\<close>, which is \<open>c.children[1]\<close>, for a nested
  \<open>Function\<close> or \<open>Class\<close>.
\<close>

fun scope_children_names :: "tree list \<Rightarrow> error + tree list" where
  "scope_children_names [] = Inr []"
| "scope_children_names (c # cs) =
     (case (case c of
              Simple (Node simple_stmt) ch \<Rightarrow> simple_stmt_names ch
            | Simple Function ch \<Rightarrow>
                (case list_getitem ch 1 of Inl e \<Rightarrow> Inl e | Inr nm \<Rightarrow> Inr [nm])
            | Simple Class ch \<Rightarrow>
                (case list_getitem ch 1 of Inl e \<Rightarrow> Inl e | Inr nm \<Rightarrow> Inr [nm])
            | _ \<Rightarrow> Inr []) of
        Inl e \<Rightarrow> Inl e
      | Inr names \<Rightarrow>
          (case scope_children_names cs of Inl e \<Rightarrow> Inl e | Inr others \<Rightarrow> Inr (names @ others)))"

text \<open>
  \<open>Scope.get_defined_names\<close>: the loop runs over the children of the last
  child when that is a \<open>suite\<close>, and over the scope's own children otherwise.
\<close>

definition scope_get_defined_names :: "tree list \<Rightarrow> error + tree list" where
  "scope_get_defined_names children =
     (case children of
        [] \<Rightarrow> Inl IndexError
      | _ \<Rightarrow>
          (case last children of
             Simple (Node suite) ch \<Rightarrow> scope_children_names ch
           | _ \<Rightarrow> scope_children_names children))"

text \<open>
  The \<open>try\<close> of \<open>Function.get_defined_names\<close> around \<open>n.append(p.get_name())\<close>
  swallows an IndexError and goes on with the next parameter.
\<close>

fun param_names :: "param list \<Rightarrow> error + tree list" where
  "param_names [] = Inr []"
| "param_names (p # ps) =
     (case get_name (param_tfpdef p) of
        Inl IndexError \<Rightarrow> param_names ps
      | Inl e \<Rightarrow> Inl e
      | Inr nm \<Rightarrow> (case param_names ps of Inl e \<Rightarrow> Inl e | Inr others \<Rightarrow> Inr (nm # others)))"

text \<open>
  \<open>get_defined_names\<close> as the classes define it.  \<open>Function\<close> appends the
  names of \<open>self.params\<close>, the list that its initialiser computed by
  \<open>_params\<close>; a raise of \<open>_params\<close> means that the initialiser raised.
  \<open>SubModule\<close> and \<open>Class\<close> use \<open>Scope.get_defined_names\<close>.  The
  other classes of the tree have no such method.
\<close>

fun get_defined_names :: "tree \<Rightarrow> error + tree list" where
  "get_defined_names (Simple ExprStmt ch) = statement_get_defined_names ch"
| "get_defined_names (Simple ArrayStmt ch) = statement_get_defined_names ch"
| "get_defined_names (Simple Import ch) = import_get_defined_names ch"
| "get_defined_names (Simple SubModule ch) = scope_get_defined_names ch"
| "get_defined_names (Simple Class ch) = scope_get_defined_names ch"
| "get_defined_names (Simple Function ch) =
     (case params ch of
        Inl e \<Rightarrow> Inl e
      | Inr ps \<Rightarrow>
          (case scope_get_defined_names ch of
             Inl e \<Rightarrow> Inl e
           | Inr n \<Rightarrow>
               (case param_names ps of Inl e \<Rightarrow> Inl e | Inr pn \<Rightarrow> Inr (n @ pn))))"
| "get_defined_names t = Inl AttributeError"

subsection \<open>The names visible in a scope\<close>

text \<open>
  \<open>Class.scope_names_generator\<close> and \<open>Function.scope_names_generator\<close> have
  the same body, a single \<open>yield self, filter_after_position(self.get_defined_names(), position)\<close>.
  The result is the list of what the generator yields.  \<open>SubModule\<close> defines no
  such method in this module.
\<close>

definition yield_own_names :: "tree \<Rightarrow> position option \<Rightarrow> error + (tree \<times> tree list) list" where
  "yield_own_names self position =
     (case get_defined_names self of
        Inl e \<Rightarrow> Inl e
      | Inr names \<Rightarrow>
          (case filter_after_position names position of
             Inl e \<Rightarrow> Inl e
           | Inr visible \<Rightarrow> Inr [(self, visible)]))"

fun scope_names_generator :: "tree \<Rightarrow> position option \<Rightarrow> error + (tree \<times> tree list) list" where
  "scope_names_generator (Simple Class ch) position = yield_own_names (Simple Class ch) position"
| "scope_names_generator (Simple Function ch) position =
     yield_own_names (Simple Function ch) position"
| "scope_names_generator t position = Inl AttributeError"

text \<open>
  \<open>is_scope()\<close> is true for the subclasses of \<open>Scope\<close>.  The scopes that enclose
  the node at a path of child indices below a root, the node itself included,
  from the innermost outward.
\<close>

fun is_scope :: "tree \<Rightarrow> bool" where
  "is_scope (Simple SubModule ch) = True"
| "is_scope (Simple Class ch) = True"
| "is_scope (Simple Function ch) = True"
| "is_scope t = False"

fun nodes_along :: "tree \<Rightarrow> nat list \<Rightarrow> tree list" where
  "nodes_along t [] = [t]"
| "nodes_along (Leaf k l) (i # path) = [Leaf k l]"
| "nodes_along (Simple c ch) (i # path) =
     (if i < length ch then Simple c ch # nodes_along (ch ! i) path else [Simple c ch])"

definition enclosing_scopes :: "tree \<Rightarrow> nat list \<Rightarrow> tree list" where
  "enclosing_scopes root path = rev (filter is_scope (nodes_along root path))"

subsection \<open>Assignment targets\<close>

text \<open>
  The statements that the binding claims speak about: a statement whose
  children are \<open>target, '=', target, '=', \<dots>, rhs\<close>, every target being a name,
  a sequence of targets separated by operators (a \<open>testlist_star_expr\<close> or
  \<open>testlist_comp\<close>), one target between two bracket operators (an \<open>atom\<close>),
  or an interior object of any further class but \<open>power\<close>, as the \<open>star_expr\<close>
  node of a starred element is.  \<open>target_items\<close> reads such a target from left
  to right: it collects the \<open>Name\<close> leaves, and an object of a further class
  as a whole, without looking into it.
\<close>

fun is_operator :: "tree \<Rightarrow> bool" where
  "is_operator (Leaf Operator l) = True"
| "is_operator t = False"

fun is_target :: "tree \<Rightarrow> bool"
  and is_target_sequence :: "tree list \<Rightarrow> bool" where
  "is_target (Leaf k l) = (k = Name)"
| "is_target (Simple c ch) =
     (if c = Node testlist_star_expr \<or> c = Node testlist_comp then is_target_sequence ch
      else if c = Node atom then
        (case ch of
           [opening, inner, closing] \<Rightarrow>
             is_operator opening \<and> is_target inner \<and> is_operator closing
         | _ \<Rightarrow> False)
      else c \<noteq> Node power_symbol)"
| "is_target_sequence [] = True"
| "is_target_sequence [t] = is_target t"
| "is_target_sequence (t # separator # rest) =
     (is_target t \<and> is_operator separator \<and> is_target_sequence rest)"

fun is_assignment :: "tree list \<Rightarrow> bool" where
  "is_assignment (target # Leaf k l # next_child # rest) =
     (is_target target \<and> k = Operator \<and> leaf_value l = ''=''
      \<and> is_assignment (next_child # rest))"
| "is_assignment [rhs] = True"
| "is_assignment children = False"

fun target_items :: "tree \<Rightarrow> tree list" where
  "target_items (Leaf k l) = (if k = Name then [Leaf k l] else [])"
| "target_items (Simple c ch) =
     (if c = Node testlist_star_expr \<or> c = Node testlist_comp \<or> c = Node atom
      then concat (map target_items ch)
      else [Simple c ch])"

text \<open>The \<open>Name\<close> leaves of a tree from left to right.\<close>

fun name_leaves :: "tree \<Rightarrow> tree list" where
  "name_leaves (Leaf k l) = (if k = Name then [Leaf k l] else [])"
| "name_leaves (Simple c ch) = concat (map name_leaves ch)"

text \<open>
  A target without an object of a further class: names, sequences and
  brackets only.
\<close>

fun names_only :: "tree \<Rightarrow> bool" where
  "names_only (Leaf k l) = True"
| "names_only (Simple c ch) =
     ((c = Node testlist_star_expr \<or> c = Node testlist_comp \<or> c = Node atom)
      \<and> list_all names_only ch)"

subsection \<open>Flow chains\<close>

text \<open>
  A \<open>Flow\<close> object links to the next segment of its compound statement by the
  slot \<open>next\<close> and back by \<open>previous\<close>; its parent is kept in the slot \<open>_parent\<close>
  behind a property.  Objects are shared and mutated, so they live in a store
  from addresses to slots.  A Python call needs a free stack frame: the first
  argument of the two functions below is the number of frames that are left,
  and a call with none left raises RecursionError (a RuntimeError in Python 2).
  Each function returns the store as the call leaves it, with the exception or
  the value.
\<close>

type_synonym addr = nat

record flow =
  flow_next :: "addr option"
  flow_previous :: "addr option"
  flow_parent :: "addr option"

type_synonym flows = "addr \<Rightarrow> flow"

text \<open>
  The setter of \<open>Flow.parent\<close>: \<open>self._parent = value\<close>, then
  \<open>self.next.parent = value\<close>, where the AttributeError of a \<open>next\<close> that is
  \<open>None\<close> is caught and ends the call.
\<close>

fun set_parent :: "nat \<Rightarrow> addr \<Rightarrow> addr option \<Rightarrow> flows \<Rightarrow> flows \<times> error option" where
  "set_parent 0 self v h = (h, Some RecursionError)"
| "set_parent (Suc depth) self v h =
     (let h' = h(self := (h self)\<lparr>flow_parent := v\<rparr>) in
      case flow_next (h' self) of
        None \<Rightarrow> (h', None)
      | Some n \<Rightarrow> set_parent depth n v h')"

text \<open>
  \<open>Flow.set_next\<close>: with a \<open>next\<close> it delegates to it (a Flow object is always
  true); otherwise it stores \<open>next\<close>, assigns \<open>self.next.parent = self.parent\<close>
  through the setter, stores \<open>self.next.previous = self\<close> and returns \<open>next\<close>.
\<close>

fun set_next :: "nat \<Rightarrow> addr \<Rightarrow> addr \<Rightarrow> flows \<Rightarrow> flows \<times> (error + addr)" where
  "set_next 0 self new h = (h, Inl RecursionError)"
| "set_next (Suc depth) self new h =
     (case flow_next (h self) of
        Some n \<Rightarrow> set_next depth n new h
      | None \<Rightarrow>
          (let h1 = h(self := (h self)\<lparr>flow_next := Some new\<rparr>) in
           case set_parent depth new (flow_parent (h1 self)) h1 of
             (h2, Some e) \<Rightarrow> (h2, Inl e)
           | (h2, None) \<Rightarrow> (h2(new := (h2 new)\<lparr>flow_previous := Some self\<rparr>), Inr new)))"

text \<open>
  \<open>chain h xs\<close>: the segments \<open>xs\<close> are linked by \<open>next\<close> in this order and the
  last one has no \<open>next\<close>.  Such a chain is finite, so it has no cycle.
\<close>

fun chain :: "flows \<Rightarrow> addr list \<Rightarrow> bool" where
  "chain h [] = False"
| "chain h [a] = (flow_next (h a) = None)"
| "chain h (a # b # xs) = (flow_next (h a) = Some b \<and> chain h (b # xs))"

subsection \<open>Parent pointers and assignment indexes\<close>

text \<open>
  \<open>Name.assignment_indexes\<close> walks the \<open>parent\<close> pointers and looks the lower
  object up among the children of the upper one.  A parent pointer is only a
  back reference, so the objects live in a store again: a cell has the class
  of the object, the addresses of its children and its parent.
\<close>

datatype object_class = LeafClass leaf_kind | SimpleClass simple_class

record cell =
  cell_class :: object_class
  cell_children :: "addr list"
  cell_parent :: "addr option"

type_synonym arena = "addr \<Rightarrow> cell"

text \<open>\<open>is_node(node, 'testlist_comp') or is_node(node, 'testlist_star_expr')\<close>.\<close>

definition is_tuple_node :: "arena \<Rightarrow> addr \<Rightarrow> bool" where
  "is_tuple_node s n =
     (cell_class (s n) = SimpleClass (Node testlist_comp)
      \<or> cell_class (s n) = SimpleClass (Node testlist_star_expr))"

text \<open>
  The loop \<open>for i, child in enumerate(node.children)\<close> with its test
  \<open>child == compare\<close> finds the first position of \<open>compare\<close>.  \<open>compare\<close> is the
  name or one of its ancestors and never a string, so \<open>==\<close> is identity for
  every class of child, also for \<open>Operator\<close> and \<open>Keyword\<close>: it is the
  equality of addresses.
\<close>

fun index_of :: "'a \<Rightarrow> 'a list \<Rightarrow> nat option" where
  "index_of x [] = None"
| "index_of x (y # ys) = (if y = x then Some 0 else map_option Suc (index_of x ys))"

text \<open>
  The \<open>while node is not None\<close> loop.  Nothing bounds it when the parent
  pointers run in a circle, so the result is an option and \<open>None\<close> stands for
  a loop that does not end.  \<open>indexes.insert(0, int(i / 2))\<close> puts the halved
  index in front.
\<close>

partial_function (option) walk_up ::
    "arena \<Rightarrow> addr option \<Rightarrow> addr \<Rightarrow> nat list \<Rightarrow> (error + nat list) option" where
  "walk_up s node compare indexes =
     (case node of
        None \<Rightarrow> Some (Inr indexes)
      | Some n \<Rightarrow>
          if is_tuple_node s n then
            (case index_of compare (cell_children (s n)) of
               None \<Rightarrow> Some (Inl LookupError)
             | Some i \<Rightarrow> walk_up s (cell_parent (s n)) n ((i div 2) # indexes))
          else walk_up s (cell_parent (s n)) n indexes)"

text \<open>The method belongs to the class \<open>Name\<close>.\<close>

definition assignment_indexes :: "arena \<Rightarrow> addr \<Rightarrow> (error + nat list) option" where
  "assignment_indexes s self =
     (if cell_class (s self) = LeafClass Name then walk_up s (cell_parent (s self)) self []
      else Some (Inl AttributeError))"

text \<open>
  \<open>parents s a path\<close>: \<open>path\<close> lists the ancestors of \<open>a\<close>, the parent first
  and the root, which has no parent, last.  The tree around \<open>a\<close> is consistent
  when every tuple ancestor has the branch that leads to \<open>a\<close> among its
  children; \<open>branch_indexes\<close> are then the halved positions of the branches,
  innermost level first.
\<close>

fun parents :: "arena \<Rightarrow> addr \<Rightarrow> addr list \<Rightarrow> bool" where
  "parents s a [] = (cell_parent (s a) = None)"
| "parents s a (p # ps) = (cell_parent (s a) = Some p \<and> parents s p ps)"

fun consistent :: "arena \<Rightarrow> addr \<Rightarrow> addr list \<Rightarrow> bool" where
  "consistent s c [] = True"
| "consistent s c (p # ps) =
     ((if is_tuple_node s p then c \<in> set (cell_children (s p)) else True)
      \<and> consistent s p ps)"

fun branch_indexes :: "arena \<Rightarrow> addr \<Rightarrow> addr list \<Rightarrow> nat list" where
  "branch_indexes s c [] = []"
| "branch_indexes s c (p # ps) =
     (if is_tuple_node s p then
        (case index_of c (cell_children (s p)) of None \<Rightarrow> [] | Some i \<Rightarrow> [i div 2])
      else []) @ branch_indexes s p ps"

section \<open>Example inputs\<close>

definition mk_leaf :: "leaf_kind \<Rightarrow> string \<Rightarrow> int \<Rightarrow> int \<Rightarrow> string \<Rightarrow> tree" where
  "mk_leaf k v line col pre =
     Leaf k \<lparr>leaf_value = v, leaf_start_pos = (Some line, col), leaf_prefix = pre\<rparr>"

text \<open>The module \<open>x = 1  # one\<close> with its comment and newline.\<close>

definition stmt_x_1 :: tree where
  "stmt_x_1 =
     Simple SubModule
      [Simple (Node simple_stmt)
        [Simple ExprStmt
          [mk_leaf Name ''x'' 1 0 [], mk_leaf Operator ''='' 1 2 '' '',
           mk_leaf Literal ''1'' 1 4 '' ''],
         mk_leaf Whitespace [CHR 0x0A] 1 12 ''  # one''],
       mk_leaf Whitespace [] 2 0 []]"

text \<open>Four names, not in the order of their positions.\<close>

definition four_names :: "tree list" where
  "four_names =
     [mk_leaf Name ''a'' 1 0 [], mk_leaf Name ''b'' 2 0 [], mk_leaf Name ''c'' 2 4 [],
      mk_leaf Name ''d'' 1 7 []]"

text \<open>The children of the statements \<open>a.b = 1\<close>, \<open>a.b.c = 1\<close> and \<open>a[0] = 1\<close>.\<close>

definition attribute_assignment :: "tree list" where
  "attribute_assignment =
     [Simple (Node power_symbol)
       [mk_leaf Name ''a'' 1 0 [],
        Simple (Node trailer) [mk_leaf Operator ''.'' 1 1 [], mk_leaf Name ''b'' 1 2 []]],
      mk_leaf Operator ''='' 1 4 '' '',
      mk_leaf Literal ''1'' 1 6 '' '']"

definition nested_attribute_assignment :: "tree list" where
  "nested_attribute_assignment =
     [Simple (Node power_symbol)
       [mk_leaf Name ''a'' 1 0 [],
        Simple (Node trailer) [mk_leaf Operator ''.'' 1 1 [], mk_leaf Name ''b'' 1 2 []],
        Simple (Node trailer) [mk_leaf Operator ''.'' 1 3 [], mk_leaf Name ''c'' 1 4 []]],
      mk_leaf Operator ''='' 1 6 '' '',
      mk_leaf Literal ''1'' 1 8 '' '']"

definition subscript_assignment :: "tree list" where
  "subscript_assignment =
     [Simple (Node power_symbol)
       [mk_leaf Name ''a'' 1 0 [],
        Simple (Node trailer)
         [mk_leaf Operator ''['' 1 1 [], mk_leaf Literal ''0'' 1 2 [],
          mk_leaf Operator '']'' 1 3 []]],
      mk_leaf Operator ''='' 1 5 '' '',
      mk_leaf Literal ''1'' 1 7 '' '']"

text \<open>The children of \<open>x, (y, z) = 2, ('', '')\<close> and of \<open>x = y = 2\<close>.\<close>

definition tuple_assignment :: "tree list" where
  "tuple_assignment =
     [Simple (Node testlist_star_expr)
       [mk_leaf Name ''x'' 1 0 [], mk_leaf Operator '','' 1 1 [],
        Simple (Node atom)
         [mk_leaf Operator ''('' 1 3 '' '',
          Simple (Node testlist_comp)
           [mk_leaf Name ''y'' 1 4 [], mk_leaf Operator '','' 1 5 [],
            mk_leaf Name ''z'' 1 7 '' ''],
          mk_leaf Operator '')'' 1 8 []]],
      mk_leaf Operator ''='' 1 10 '' '',
      Simple (Node testlist_star_expr)
       [mk_leaf Literal ''2'' 1 12 '' '', mk_leaf Operator '','' 1 13 [],
        Simple (Node atom)
         [mk_leaf Operator ''('' 1 15 '' '',
          Simple (Node testlist_comp)
           [mk_leaf Literal [CHR 0x27, CHR 0x27] 1 16 [], mk_leaf Operator '','' 1 18 [],
            mk_leaf Literal [CHR 0x27, CHR 0x27] 1 20 '' ''],
          mk_leaf Operator '')'' 1 22 []]]]"

definition chained_assignment :: "tree list" where
  "chained_assignment =
     [mk_leaf Name ''x'' 1 0 [], mk_leaf Operator ''='' 1 2 '' '',
      mk_leaf Name ''y'' 1 4 '' '', mk_leaf Operator ''='' 1 6 '' '',
      mk_leaf Literal ''2'' 1 8 '' '']"

text \<open>
  The children of \<open>*a, b = 1\<close>.  The grammar symbol \<open>star_expr\<close> is not named
  in the source, so it is one of the other symbols.
\<close>

definition star_expr :: symbol where
  "star_expr = other_symbol 1"

definition starred_a :: tree where
  "starred_a =
     Simple (Node star_expr) [mk_leaf Operator ''*'' 1 0 [], mk_leaf Name ''a'' 1 1 []]"

definition starred_assignment :: "tree list" where
  "starred_assignment =
     [Simple (Node testlist_star_expr)
       [starred_a, mk_leaf Operator '','' 1 2 [], mk_leaf Name ''b'' 1 4 '' ''],
      mk_leaf Operator ''='' 1 6 '' '',
      mk_leaf Literal ''1'' 1 8 '' '']"

text \<open>The children of \<open>a.b, c = 1\<close> and of \<open>[] = x\<close>.\<close>

definition attribute_element_assignment :: "tree list" where
  "attribute_element_assignment =
     [Simple (Node testlist_star_expr)
       [Simple (Node power_symbol)
         [mk_leaf Name ''a'' 1 0 [],
          Simple (Node trailer) [mk_leaf Operator ''.'' 1 1 [], mk_leaf Name ''b'' 1 2 []]],
        mk_leaf Operator '','' 1 3 [], mk_leaf Name ''c'' 1 5 '' ''],
      mk_leaf Operator ''='' 1 7 '' '',
      mk_leaf Literal ''1'' 1 9 '' '']"

definition empty_list_assignment :: "tree list" where
  "empty_list_assignment =
     [Simple (Node atom) [mk_leaf Operator ''['' 1 0 [], mk_leaf Operator '']'' 1 1 []],
      mk_leaf Operator ''='' 1 3 '' '',
      mk_leaf Name ''x'' 1 5 '' '']"

text \<open>The class \<open>class C: pass\<close>, whose body is a keyword statement.\<close>

definition class_pass :: "tree list" where
  "class_pass =
     [mk_leaf Keyword ''class'' 1 0 [], mk_leaf Name ''C'' 1 6 '' '',
      mk_leaf Operator '':'' 1 7 [],
      Simple (Node simple_stmt)
       [Simple KeywordStatement [mk_leaf Keyword ''pass'' 1 9 '' ''],
        mk_leaf Whitespace [CHR 0x0A] 1 13 []]]"

text \<open>The import \<open>from x import *\<close>.\<close>

definition import_star :: tree where
  "import_star =
     Simple Import
      [mk_leaf Keyword ''from'' 1 0 [], mk_leaf Name ''x'' 1 5 '' '',
       mk_leaf Keyword ''import'' 1 7 '' '', mk_leaf Operator ''*'' 1 14 '' '']"

text \<open>
  The module
  \<^verbatim>\<open>class C:\<close>
  \<^verbatim>\<open>    def f(self, a):\<close>
  \<^verbatim>\<open>        x = 1\<close>
  with its function, its class, and the path from the module to the function.
\<close>

definition function_f :: tree where
  "function_f =
     Simple Function
      [mk_leaf Keyword ''def'' 2 4 ''    '', mk_leaf Name ''f'' 2 8 '' '',
       Simple (Node (other_symbol 0))
        [mk_leaf Operator ''('' 2 9 [],
         Simple (Node typedargslist)
          [mk_leaf Name ''self'' 2 10 [], mk_leaf Operator '','' 2 14 [],
           mk_leaf Name ''a'' 2 16 '' ''],
         mk_leaf Operator '')'' 2 17 []],
       mk_leaf Operator '':'' 2 18 [],
       Simple (Node suite)
        [mk_leaf Whitespace [CHR 0x0A] 2 19 [],
         Simple (Node simple_stmt)
          [Simple ExprStmt
            [mk_leaf Name ''x'' 3 8 ''        '', mk_leaf Operator ''='' 3 10 '' '',
             mk_leaf Literal ''1'' 3 12 '' ''],
           mk_leaf Whitespace [CHR 0x0A] 3 13 []]]]"

definition class_C :: tree where
  "class_C =
     Simple Class
      [mk_leaf Keyword ''class'' 1 0 [], mk_leaf Name ''C'' 1 6 '' '',
       mk_leaf Operator '':'' 1 7 [],
       Simple (Node suite) [mk_leaf Whitespace [CHR 0x0A] 1 8 [], function_f]]"

definition module_C :: tree where
  "module_C = Simple SubModule [class_C, mk_leaf Whitespace [] 4 0 []]"

definition path_to_f :: "nat list" where
  "path_to_f = [0, 3, 1]"

text \<open>A store of flow segments that are not linked yet.\<close>

definition fresh_flows :: flows where
  "fresh_flows = (\<lambda>a. \<lparr>flow_next = None, flow_previous = None, flow_parent = None\<rparr>)"

text \<open>
  The objects of \<open>x, (y, z) = 2, ''\<close>: the statement at address 0, its target
  \<open>x, (y, z)\<close> at 1 with the children \<open>x\<close>, the comma and the atom \<open>(y, z)\<close> at
  2, 3 and 4, the atom's children \<open>(\<close>, \<open>y, z\<close> and \<open>)\<close> at 5, 6 and 10, and
  \<open>y\<close>, the comma and \<open>z\<close> at 7, 8 and 9; \<open>=\<close> is at 11 and the right-hand
  side at 12.  In \<open>broken_cells\<close> the node \<open>y, z\<close> has lost its child \<open>y\<close>,
  whose parent pointer still names it.
\<close>

definition leaf_cell :: "leaf_kind \<Rightarrow> addr \<Rightarrow> cell" where
  "leaf_cell k p = \<lparr>cell_class = LeafClass k, cell_children = [], cell_parent = Some p\<rparr>"

definition node_cell :: "simple_class \<Rightarrow> addr list \<Rightarrow> addr option \<Rightarrow> cell" where
  "node_cell c ch p = \<lparr>cell_class = SimpleClass c, cell_children = ch, cell_parent = p\<rparr>"

definition tuple_cells :: arena where
  "tuple_cells =
     (\<lambda>a. leaf_cell Whitespace 0)
       (0 := node_cell ExprStmt [1, 11, 12] None,
        1 := node_cell (Node testlist_star_expr) [2, 3, 4] (Some 0),
        2 := leaf_cell Name 1,
        3 := leaf_cell Operator 1,
        4 := node_cell (Node atom) [5, 6, 10] (Some 1),
        5 := leaf_cell Operator 4,
        6 := node_cell (Node testlist_comp) [7, 8, 9] (Some 4),
        7 := leaf_cell Name 6,
        8 := leaf_cell Operator 6,
        9 := leaf_cell Name 6,
        10 := leaf_cell Operator 4,
        11 := leaf_cell Operator 0,
        12 := leaf_cell Literal 0)"

definition broken_cells :: arena where
  "broken_cells = tuple_cells(6 := node_cell (Node testlist_comp) [8, 9] (Some 4))"

section \<open>Properties\<close>

text \<open>
  The functions above test \<open>is_node\<close> by matching the class of the object
  against \<open>Node s\<close>; this is the same test.
\<close>

lemma is_node_iff: "is_node t s = (\<exists>ch. t = Simple (Node s) ch)"
  by (cases "(t, s)" rule: is_node.cases) auto

subsection \<open>Source text\<close>

lemma get_code_leaves:
  "get_code t = concat (map (\<lambda>l. leaf_prefix l @ leaf_value l) (leaves t))"
proof (induction t)
  case (Leaf k l)
  show ?case by simp
next
  case (Simple c ch)
  then show ?case
    by (induction ch) auto
qed

text \<open>
  C2.  A leaf's code is its prefix followed by its value; an interior node's
  code is the concatenation of its children's codes in child order; hence the
  code of the root of a parse of the text \<open>S\<close> is \<open>S\<close> itself, whatever the
  whitespace and comments are, since they live in the prefixes.
\<close>

theorem get_code_round_trip:
  "get_code (Leaf k l) = leaf_prefix l @ leaf_value l
   \<and> get_code (Simple c ch) = concat (map get_code ch)
   \<and> (parse_of S root \<longrightarrow> get_code root = S)"
  by (simp add: parse_of_def get_code_leaves [symmetric])

theorem get_code_round_trip_witness:
  "parse_of (''x = 1  # one'' @ [CHR 0x0A]) stmt_x_1
   \<and> get_code stmt_x_1 = ''x = 1  # one'' @ [CHR 0x0A]"
proof -
  have p: "parse_of (''x = 1  # one'' @ [CHR 0x0A]) stmt_x_1"
    by (simp add: parse_of_def stmt_x_1_def mk_leaf_def)
  with get_code_round_trip [of _ _ _ _ "''x = 1  # one'' @ [CHR 0x0A]" stmt_x_1]
  show ?thesis by blast
qed

subsection \<open>Relocation\<close>

lemma move_get_code:
  "get_code (fst (move lo co t)) = get_code t"
  "concat (map get_code (fst (move_children lo co ts))) = concat (map get_code ts)"
  by (induction lo co t and lo co ts rule: move_move_children.induct)
     (auto split: prod.splits sum.splits option.splits simp: move_leaf_def)

lemma move_erase_pos:
  "erase_pos (fst (move lo co t)) = erase_pos t"
  "map erase_pos (fst (move_children lo co ts)) = map erase_pos ts"
  by (induction lo co t and lo co ts rule: move_move_children.induct)
     (auto split: prod.splits sum.splits option.splits simp: move_leaf_def)

text \<open>When nothing is raised, every leaf below the node has been shifted by the offsets.\<close>

lemma move_shifts:
  "snd (move lo co (Simple c ch)) = None \<Longrightarrow>
     fst (move lo co (Simple c ch)) = shifted lo co (Simple c ch)"
  "snd (move_children lo co ts) = None \<Longrightarrow>
     fst (move_children lo co ts) = map (shifted lo co) ts"
  by (induction lo co "Simple c ch" and lo co ts arbitrary: c ch
        rule: move_move_children.induct)
     (auto split: prod.splits sum.splits option.splits simp: move_leaf_def)

lemma move_stmt_x_1: "move 3 2 stmt_x_1 = (shifted 3 2 stmt_x_1, None)"
  by (simp add: stmt_x_1_def move_leaf_def mk_leaf_def)

text \<open>
  C10.  Whatever the node and the offsets, and whether or not the call raises,
  the tree left behind by \<open>move\<close> differs from the old one in \<open>start_pos\<close>
  fields only: child structure, leaf values and prefixes are the old ones, and
  \<open>get_code\<close> returns the same string as before.
\<close>

theorem move_changes_start_pos_only:
  "erase_pos (fst (move line_offset column_offset t)) = erase_pos t
   \<and> get_code (fst (move line_offset column_offset t)) = get_code t"
  by (simp add: move_get_code(1) move_erase_pos(1))

subsection \<open>The visibility filter\<close>

lemma filter_loop_leaves:
  "list_all is_leaf names \<Longrightarrow>
     filter_loop names p = Inr (filter (leaf_starts_before p) names)"
proof (induction names)
  case Nil
  show ?case by simp
next
  case (Cons n ns)
  then show ?case by (cases n) auto
qed

text \<open>
  C9.  With position \<open>None\<close> the names come back unchanged.  With a position,
  a list of name leaves comes back as the sublist, in the old order, of the
  names that start strictly before the position; a name that starts at the
  position or after it is dropped.
\<close>

theorem filter_after_position_spec:
  "filter_after_position names None = Inr names
   \<and> (list_all is_leaf names \<longrightarrow>
        filter_after_position names (Some pos) = Inr (filter (leaf_starts_before pos) names)
        \<and> (\<forall>k l line col. Leaf k l \<in> set names \<and> leaf_start_pos l = (Some line, col) \<longrightarrow>
              (leaf_starts_before pos (Leaf k l) \<longleftrightarrow>
                 line < fst pos \<or> (line = fst pos \<and> col < snd pos))))"
  by (cases pos) (auto simp: filter_loop_leaves)

theorem filter_after_position_spec_witness:
  "list_all is_leaf four_names
   \<and> filter_after_position four_names (Some (2, 0))
       = Inr [mk_leaf Name ''a'' 1 0 [], mk_leaf Name ''d'' 1 7 []]"
proof -
  have l: "list_all is_leaf four_names"
    by (simp add: four_names_def mk_leaf_def)
  with filter_after_position_spec [of four_names "(2, 0)"]
  have "filter_after_position four_names (Some (2, 0))
      = Inr (filter (leaf_starts_before (2, 0)) four_names)"
    by blast
  with l show ?thesis by (simp add: four_names_def mk_leaf_def)
qed

subsection \<open>Array access\<close>

text \<open>
  C8.  On an Array of type DICT, iterating and indexing raise TypeError; on an
  Array of any other type, \<open>items()\<close> raises TypeError; so no Array answers
  both protocols.
\<close>

theorem array_dict_duality:
  "(array_type a = DICT \<longrightarrow>
      array_iter a = Inl TypeError \<and> array_getitem a key = Inl TypeError)
   \<and> (array_type a \<noteq> DICT \<longrightarrow> array_items a = Inl TypeError)
   \<and> \<not> ((\<exists>vs. array_iter a = Inr vs) \<and> (\<exists>kvs. array_items a = Inr kvs))"
  by (simp add: array_iter_def array_getitem_def array_items_def)

theorem array_dict_duality_witness:
  "array_iter \<lparr>array_type = DICT, array_values = [''1''], array_keys = [''k'']\<rparr> = Inl TypeError
   \<and> array_getitem \<lparr>array_type = DICT, array_values = [''1''], array_keys = [''k'']\<rparr> 0
       = Inl TypeError
   \<and> array_items \<lparr>array_type = DICT, array_values = [''1''], array_keys = [''k'']\<rparr>
       = Inr [(''k'', ''1'')]
   \<and> array_items \<lparr>array_type = LIST, array_values = [''1''], array_keys = []\<rparr> = Inl TypeError
   \<and> array_iter \<lparr>array_type = LIST, array_values = [''1''], array_keys = []\<rparr> = Inr [''1'']"
  using array_dict_duality
          [of "\<lparr>array_type = DICT, array_values = [''1''], array_keys = [''k'']\<rparr>" 0]
        array_dict_duality
          [of "\<lparr>array_type = LIST, array_values = [''1''], array_keys = []\<rparr>" 0]
  by (simp add: array_items_def array_iter_def)

subsection \<open>Names bound by statements\<close>

text \<open>
  The statement \<open>a.b = 1\<close> does not yield the empty list: \<open>check_tuple\<close>
  appends the name after the dot of the last trailer.
\<close>

theorem attribute_target_counterexample:
  "get_defined_names (Simple ExprStmt attribute_assignment) = Inr [mk_leaf Name ''b'' 1 2 []]
   \<and> get_defined_names (Simple ExprStmt attribute_assignment) \<noteq> Inr []"
  by (simp add: attribute_assignment_def power_names_def list_getitem_def mk_leaf_def)

lemma list_getitem_before_last:
  "pre \<noteq> [] \<Longrightarrow> list_getitem (pre @ [t]) (- 2) = Inr (last pre)"
  by (cases pre rule: rev_cases) (auto simp: list_getitem_def nth_append)

text \<open>
  C1, as the code has it.  For a statement \<open>target = rhs\<close> whose target is
  a \<open>power\<close> node that ends in a trailer, with no \<open>**\<close> before the trailer:
  when the trailer starts with a dot, \<open>get_defined_names\<close> returns the list
  that holds the trailer's second child, the attribute name, and nothing
  else; when the trailer starts with anything else, as the bracket of a
  subscript does, it returns the empty list.
\<close>

theorem attribute_target_names:
  assumes "pre \<noteq> []" and "\<not> eq_str (last pre) ''**''" and "leaf_value eq = ''=''"
  shows "get_defined_names
           (Simple ExprStmt
             [Simple (Node power_symbol) (pre @ [Simple (Node trailer) (t0 # nm # ts)]),
              Leaf k eq, rhs])
         = Inr (if eq_str t0 ''.'' then [nm] else [])"
  using assms by (simp add: power_names_def list_getitem_before_last)

theorem attribute_target_names_witness:
  "get_defined_names (Simple ExprStmt nested_attribute_assignment) = Inr [mk_leaf Name ''c'' 1 4 []]
   \<and> get_defined_names (Simple ExprStmt subscript_assignment) = Inr []"
proof -
  have "get_defined_names (Simple ExprStmt nested_attribute_assignment)
      = Inr [mk_leaf Name ''c'' 1 4 []]"
    unfolding nested_attribute_assignment_def mk_leaf_def
    using attribute_target_names
      [of "[Leaf Name \<lparr>leaf_value = ''a'', leaf_start_pos = (Some 1, 0), leaf_prefix = []\<rparr>,
            Simple (Node trailer)
             [Leaf Operator \<lparr>leaf_value = ''.'', leaf_start_pos = (Some 1, 1), leaf_prefix = []\<rparr>,
              Leaf Name \<lparr>leaf_value = ''b'', leaf_start_pos = (Some 1, 2), leaf_prefix = []\<rparr>]]"
          "\<lparr>leaf_value = ''='', leaf_start_pos = (Some 1, 6), leaf_prefix = '' ''\<rparr>"
          "Leaf Operator \<lparr>leaf_value = ''.'', leaf_start_pos = (Some 1, 3), leaf_prefix = []\<rparr>"
          "Leaf Name \<lparr>leaf_value = ''c'', leaf_start_pos = (Some 1, 4), leaf_prefix = []\<rparr>"
          "[]" Operator
          "Leaf Literal \<lparr>leaf_value = ''1'', leaf_start_pos = (Some 1, 8), leaf_prefix = '' ''\<rparr>"]
    by simp
  moreover have "get_defined_names (Simple ExprStmt subscript_assignment) = Inr []"
    unfolding subscript_assignment_def mk_leaf_def
    using attribute_target_names
      [of "[Leaf Name \<lparr>leaf_value = ''a'', leaf_start_pos = (Some 1, 0), leaf_prefix = []\<rparr>]"
          "\<lparr>leaf_value = ''='', leaf_start_pos = (Some 1, 5), leaf_prefix = '' ''\<rparr>"
          "Leaf Operator \<lparr>leaf_value = ''['', leaf_start_pos = (Some 1, 1), leaf_prefix = []\<rparr>"
          "Leaf Literal \<lparr>leaf_value = ''0'', leaf_start_pos = (Some 1, 2), leaf_prefix = []\<rparr>"
          "[Leaf Operator \<lparr>leaf_value = '']'', leaf_start_pos = (Some 1, 3), leaf_prefix = []\<rparr>]"
          Operator
          "Leaf Literal \<lparr>leaf_value = ''1'', leaf_start_pos = (Some 1, 7), leaf_prefix = '' ''\<rparr>"]
    by simp
  ultimately show ?thesis by simp
qed

lemma target_items_operator: "is_operator t \<Longrightarrow> target_items t = []"
  by (cases t rule: is_operator.cases) auto

lemma check_tuple_targets:
  "is_target t \<Longrightarrow> check_tuple t = Inr (target_items t)"
  "is_target_sequence ts \<Longrightarrow> check_tuple_stride ts = Inr (concat (map target_items ts))"
proof (induction t and ts rule: check_tuple_check_tuple_stride.induct)
  case (1 k l)
  then show ?case by simp
next
  case (2 c ch)
  then show ?case
    by (auto split: if_splits list.splits simp: target_items_operator)
next
  case 3
  then show ?case by simp
next
  case (4 child)
  then show ?case by simp
next
  case (5 child separator rest)
  then show ?case by (simp add: target_items_operator)
qed

lemma butlast_three: "butlast (a # b # c # r) = a # b # butlast (c # r)"
  by simp

lemma statement_names:
  "is_assignment children \<Longrightarrow>
     statement_get_defined_names children = Inr (concat (map target_items (butlast children)))"
proof (induction children rule: is_assignment.induct)
  case (1 target k l next_child rest)
  then show ?case
    by (simp add: check_tuple_targets(1) butlast_three del: butlast.simps)
qed simp_all

text \<open>
  For a target of names, sequences and brackets only, the items are the
  \<open>Name\<close> leaves in the order of the source text.
\<close>

lemma target_items_names_only: "names_only t \<Longrightarrow> target_items t = name_leaves t"
proof (induction t)
  case (Leaf k l)
  show ?case by simp
next
  case (Simple c ch)
  then have "\<forall>x\<in>set ch. target_items x = name_leaves x"
    by (auto simp: list_all_iff)
  then have "map target_items ch = map name_leaves ch"
    by (simp only: map_eq_conv)
  then have "concat (map target_items ch) = concat (map name_leaves ch)"
    by (rule arg_cong)
  with Simple.prems show ?case by simp
qed

text \<open>
  Two statements outside these targets.  An attribute access inside a tuple
  target contributes its attribute name, as it does at the top of a target;
  an empty list display contributes its closing bracket, the child that
  \<open>check_tuple\<close> takes for the inner target of an \<open>atom\<close>.
\<close>

lemma attribute_element_names:
  "get_defined_names (Simple ExprStmt attribute_element_assignment)
     = Inr [mk_leaf Name ''b'' 1 2 [], mk_leaf Name ''c'' 1 5 '' '']"
  by (simp add: attribute_element_assignment_def power_names_def list_getitem_def mk_leaf_def)

lemma empty_list_names:
  "get_defined_names (Simple ExprStmt empty_list_assignment)
     = Inr [mk_leaf Operator '']'' 1 1 []]"
  by (simp add: empty_list_assignment_def mk_leaf_def)

text \<open>
  The statement \<open>*a, b = 1\<close> does not yield the names \<open>a\<close> and \<open>b\<close>:
  \<open>check_tuple\<close> has no branch for a starred element and returns the
  \<open>star_expr\<close> node in the place of the name \<open>a\<close>.
\<close>

theorem starred_target_counterexample:
  "get_defined_names (Simple ExprStmt starred_assignment)
     = Inr [starred_a, mk_leaf Name ''b'' 1 4 '' '']
   \<and> get_defined_names (Simple ExprStmt starred_assignment)
     \<noteq> Inr [mk_leaf Name ''a'' 1 1 [], mk_leaf Name ''b'' 1 4 '' '']"
  by (simp add: starred_assignment_def starred_a_def star_expr_def mk_leaf_def)

text \<open>
  C4, as the code has it.  For a statement \<open>target = target = \<dots> = rhs\<close> whose
  targets are made of names, tuple or list displays, brackets and objects of
  further classes such as starred elements, \<open>get_defined_names\<close> returns the
  items of all targets, those of every segment of a chained assignment, in the
  order of the source text: every bare name, and every object of a further
  class as a whole.  When the targets are made of names, displays and
  brackets only, these are the \<open>Name\<close> leaves of all children but the
  right-hand side, from left to right.
\<close>

theorem statement_names_left_to_right:
  "is_assignment children \<Longrightarrow>
     get_defined_names (Simple ExprStmt children)
       = Inr (concat (map target_items (butlast children)))
     \<and> (list_all names_only (butlast children) \<longrightarrow>
          get_defined_names (Simple ExprStmt children)
            = Inr (concat (map name_leaves (butlast children))))"
proof -
  assume a: "is_assignment children"
  have "list_all names_only ts \<Longrightarrow>
      concat (map target_items ts) = concat (map name_leaves ts)" for ts
    by (induction ts) (simp_all add: target_items_names_only)
  with a show ?thesis by (simp add: statement_names)
qed

theorem statement_names_left_to_right_witness:
  "is_assignment tuple_assignment
   \<and> get_defined_names (Simple ExprStmt tuple_assignment)
       = Inr [mk_leaf Name ''x'' 1 0 [], mk_leaf Name ''y'' 1 4 [], mk_leaf Name ''z'' 1 7 '' '']
   \<and> is_assignment chained_assignment
   \<and> get_defined_names (Simple ExprStmt chained_assignment)
       = Inr [mk_leaf Name ''x'' 1 0 [], mk_leaf Name ''y'' 1 4 '' '']
   \<and> is_assignment starred_assignment
   \<and> get_defined_names (Simple ExprStmt starred_assignment)
       = Inr (concat (map target_items (butlast starred_assignment)))
   \<and> concat (map target_items (butlast starred_assignment))
       = [starred_a, mk_leaf Name ''b'' 1 4 '' '']"
proof -
  have t: "is_assignment tuple_assignment"
    by (simp add: tuple_assignment_def mk_leaf_def)
  have c: "is_assignment chained_assignment"
    by (simp add: chained_assignment_def mk_leaf_def)
  have s: "is_assignment starred_assignment"
    by (simp add: starred_assignment_def starred_a_def star_expr_def mk_leaf_def)
  have tn: "list_all names_only (butlast tuple_assignment)"
    by (simp add: tuple_assignment_def mk_leaf_def)
  have cn: "list_all names_only (butlast chained_assignment)"
    by (simp add: chained_assignment_def mk_leaf_def)
  have "concat (map name_leaves (butlast tuple_assignment))
      = [mk_leaf Name ''x'' 1 0 [], mk_leaf Name ''y'' 1 4 [], mk_leaf Name ''z'' 1 7 '' '']"
    by (simp add: tuple_assignment_def mk_leaf_def)
  moreover have "concat (map name_leaves (butlast chained_assignment))
      = [mk_leaf Name ''x'' 1 0 [], mk_leaf Name ''y'' 1 4 '' '']"
    by (simp add: chained_assignment_def mk_leaf_def)
  moreover have "concat (map target_items (butlast starred_assignment))
      = [starred_a, mk_leaf Name ''b'' 1 4 '' '']"
    by (simp add: starred_assignment_def starred_a_def star_expr_def mk_leaf_def)
  moreover have "get_defined_names (Simple ExprStmt tuple_assignment)
      = Inr (concat (map name_leaves (butlast tuple_assignment)))"
    using statement_names_left_to_right [OF t] tn by blast
  moreover have "get_defined_names (Simple ExprStmt chained_assignment)
      = Inr (concat (map name_leaves (butlast chained_assignment)))"
    using statement_names_left_to_right [OF c] cn by blast
  moreover have "get_defined_names (Simple ExprStmt starred_assignment)
      = Inr (concat (map target_items (butlast starred_assignment)))"
    using statement_names_left_to_right [OF s] by blast
  ultimately show ?thesis
    using t c s by (simp only: simp_thms)
qed

subsection \<open>Names bound by imports\<close>

text \<open>
  The star import \<open>from x import *\<close> does not yield the empty list: the last
  child, the operator \<open>*\<close>, comes back as the one name.
\<close>

theorem import_star_counterexample:
  "get_defined_names import_star = Inr [mk_leaf Operator ''*'' 1 14 '' '']
   \<and> get_defined_names import_star \<noteq> Inr []"
  by (simp add: import_star_def mk_leaf_def)

text \<open>
  C5, as the code has it.  An Import without children raises IndexError.
  Otherwise, when the first child is the keyword \<open>import\<close>,
  \<open>get_defined_names\<close> returns all the children after it, and when it is
  anything else, the list that holds the last child and nothing else,
  whatever that child is.
\<close>

theorem import_defined_names:
  "get_defined_names (Simple Import []) = Inl IndexError
   \<and> get_defined_names (Simple Import (c0 # rest))
       = Inr (if eq_str c0 ''import'' then rest else [last (c0 # rest)])"
  by simp

subsection \<open>Names visible in a scope\<close>

lemma function_f_names:
  "get_defined_names function_f =
     Inr [mk_leaf Name ''x'' 3 8 ''        '', mk_leaf Name ''self'' 2 10 [],
          mk_leaf Name ''a'' 2 16 '' '']"
  by (simp add: function_f_def mk_leaf_def params_def list_getitem_def
        scope_get_defined_names_def new_param_def)

lemma class_C_names: "get_defined_names class_C = Inr [mk_leaf Name ''f'' 2 8 '' '']"
  by (simp add: class_C_def function_f_def mk_leaf_def list_getitem_def
        scope_get_defined_names_def)

lemma function_f_generator:
  "scope_names_generator function_f None =
     Inr [(function_f,
           [mk_leaf Name ''x'' 3 8 ''        '', mk_leaf Name ''self'' 2 10 [],
            mk_leaf Name ''a'' 2 16 '' ''])]"
proof -
  have "scope_names_generator function_f None = yield_own_names function_f None"
    by (simp add: function_f_def)
  then show ?thesis
    by (simp add: yield_own_names_def function_f_names)
qed

lemma enclosing_scopes_of_f:
  "enclosing_scopes module_C path_to_f = [function_f, class_C, module_C]"
  by (simp add: enclosing_scopes_def path_to_f_def module_C_def class_C_def function_f_def)

text \<open>
  The function \<open>f\<close> lies in the class \<open>C\<close>, which lies in the module: three
  scopes enclose it, itself included.  Its generator yields one entry, for
  \<open>f\<close> itself, and none for the class or the module.
\<close>

theorem scope_names_generator_counterexample:
  "enclosing_scopes module_C path_to_f = [function_f, class_C, module_C]
   \<and> scope_names_generator function_f None =
       Inr [(function_f,
             [mk_leaf Name ''x'' 3 8 ''        '', mk_leaf Name ''self'' 2 10 [],
              mk_leaf Name ''a'' 2 16 '' ''])]
   \<and> scope_names_generator function_f None \<noteq>
       Inr [(function_f,
             [mk_leaf Name ''x'' 3 8 ''        '', mk_leaf Name ''self'' 2 10 [],
              mk_leaf Name ''a'' 2 16 '' '']),
            (class_C, [mk_leaf Name ''f'' 2 8 '' '']),
            (module_C, [mk_leaf Name ''C'' 1 6 '' ''])]"
  by (simp add: enclosing_scopes_of_f function_f_generator)

lemma class_pass_names: "get_defined_names (Simple Class class_pass) = Inl AttributeError"
  by (simp add: class_pass_def mk_leaf_def scope_get_defined_names_def)

text \<open>
  C6, as the code has it.  For a Class or Function scope and any position,
  \<open>scope_names_generator\<close> yields nothing for the scopes around the scope.
  When \<open>get_defined_names\<close> and \<open>filter_after_position\<close> return, it yields
  exactly one entry: the scope itself with its own defined names, filtered.
  When one of the two raises, the generator raises the same error and yields
  no entry.
\<close>

theorem scope_names_generator_own_entry:
  assumes "c = Class \<or> c = Function"
  shows "((scope_names_generator (Simple c ch) position = Inr entries) =
     (\<exists>names visible. get_defined_names (Simple c ch) = Inr names
         \<and> filter_after_position names position = Inr visible
         \<and> entries = [(Simple c ch, visible)]))
   \<and> (\<forall>e. get_defined_names (Simple c ch) = Inl e \<longrightarrow>
          scope_names_generator (Simple c ch) position = Inl e)
   \<and> (\<forall>names e. get_defined_names (Simple c ch) = Inr names
          \<and> filter_after_position names position = Inl e \<longrightarrow>
          scope_names_generator (Simple c ch) position = Inl e)"
  using assms by (auto simp: yield_own_names_def split: sum.splits)

theorem scope_names_generator_own_entry_witness:
  "scope_names_generator function_f (Some (3, 0)) =
     Inr [(function_f, [mk_leaf Name ''self'' 2 10 [], mk_leaf Name ''a'' 2 16 '' ''])]
   \<and> scope_names_generator (Simple Class class_pass) (Some (3, 0)) = Inl AttributeError"
proof -
  obtain ch where f: "function_f = Simple Function ch"
    by (simp add: function_f_def)
  have "filter_after_position
          [mk_leaf Name ''x'' 3 8 ''        '', mk_leaf Name ''self'' 2 10 [],
           mk_leaf Name ''a'' 2 16 '' ''] (Some (3, 0))
        = Inr [mk_leaf Name ''self'' 2 10 [], mk_leaf Name ''a'' 2 16 '' '']"
    by (simp add: mk_leaf_def)
  with function_f_names
  have "\<exists>names visible. get_defined_names function_f = Inr names
         \<and> filter_after_position names (Some (3, 0)) = Inr visible
         \<and> [(function_f, [mk_leaf Name ''self'' 2 10 [], mk_leaf Name ''a'' 2 16 '' ''])]
             = [(function_f, visible)]"
    by simp
  then have "scope_names_generator function_f (Some (3, 0)) =
     Inr [(function_f, [mk_leaf Name ''self'' 2 10 [], mk_leaf Name ''a'' 2 16 '' ''])]"
    using scope_names_generator_own_entry [of Function ch "Some (3, 0)"
        "[(function_f, [mk_leaf Name ''self'' 2 10 [], mk_leaf Name ''a'' 2 16 '' ''])]"]
    unfolding f by simp
  moreover have "scope_names_generator (Simple Class class_pass) (Some (3, 0))
      = Inl AttributeError"
    using scope_names_generator_own_entry [of Class class_pass "Some (3, 0)" "[]"]
      class_pass_names
    by simp
  ultimately show ?thesis by simp
qed

subsection \<open>Flow chains\<close>

text \<open>The parent setter writes no \<open>next\<close> slot.\<close>

lemma set_parent_next: "flow_next (fst (set_parent d a v h) b) = flow_next (h b)"
proof (induction d arbitrary: a h)
  case 0
  show ?case by simp
next
  case (Suc d)
  let ?h' = "h(a := (h a)\<lparr>flow_parent := v\<rparr>)"
  have same: "flow_next (?h' b) = flow_next (h b)" by simp
  show ?case
  proof (cases "flow_next (h a)")
    case None
    then show ?thesis by simp
  next
    case (Some n)
    then have "set_parent (Suc d) a v h = set_parent d n v ?h'" by simp
    moreover have "flow_next (fst (set_parent d n v ?h') b) = flow_next (?h' b)"
      by (rule Suc.IH)
    ultimately show ?thesis using same by simp
  qed
qed

lemma chain_cong:
  "(\<And>a. a \<in> set xs \<Longrightarrow> flow_next (h' a) = flow_next (h a)) \<Longrightarrow> chain h' xs = chain h xs"
  by (induction h xs rule: chain.induct) auto

lemma chain_Cons:
  "chain h (a # xs) =
     (case xs of [] \<Rightarrow> flow_next (h a) = None | b # bs \<Rightarrow> flow_next (h a) = Some b \<and> chain h xs)"
  by (cases xs) auto

lemma chain_unique: "chain h xs \<Longrightarrow> chain h ys \<Longrightarrow> hd xs = hd ys \<Longrightarrow> xs = ys"
proof (induction xs arbitrary: ys)
  case Nil
  then show ?case by simp
next
  case (Cons a xs)
  then obtain ys' where ys: "ys = a # ys'" by (cases ys) auto
  show ?case
  proof (cases xs)
    case Nil
    with Cons.prems ys show ?thesis by (cases ys') auto
  next
    case (Cons b bs)
    with Cons.prems ys obtain cs where "ys' = b # cs" by (cases ys') auto
    with Cons Cons.prems Cons.IH [of ys'] ys show ?thesis by auto
  qed
qed

lemma chain_suffix: "chain h (xs @ ys) \<Longrightarrow> ys \<noteq> [] \<Longrightarrow> chain h ys"
  by (induction h xs rule: chain.induct) (auto simp: neq_Nil_conv)

lemma chain_hd_notin: "chain h (a # xs) \<Longrightarrow> a \<notin> set xs"
proof
  assume c: "chain h (a # xs)" and "a \<in> set xs"
  then obtain us vs where xs: "xs = us @ a # vs" by (auto simp: in_set_conv_decomp)
  with c have "chain h ((a # us) @ a # vs)" by simp
  then have "chain h (a # vs)" by (rule chain_suffix) simp
  with c have "a # xs = a # vs" by (intro chain_unique) auto
  with xs show False by simp
qed

text \<open>
  On a chain the parent setter ends without a raise when it has a frame for
  every segment.
\<close>

lemma set_parent_ok:
  "chain h ys \<Longrightarrow> length ys \<le> d \<Longrightarrow> snd (set_parent d (hd ys) v h) = None"
proof (induction d arbitrary: ys h)
  case 0
  then show ?case by (cases ys) auto
next
  case (Suc d)
  from Suc.prems obtain a xs where ys: "ys = a # xs" by (cases ys) auto
  let ?h' = "h(a := (h a)\<lparr>flow_parent := v\<rparr>)"
  show ?case
  proof (cases xs)
    case Nil
    with Suc.prems ys show ?thesis by simp
  next
    case (Cons b bs)
    with Suc.prems ys have n: "flow_next (h a) = Some b" and c: "chain h xs" by auto
    have "chain ?h' xs = chain h xs" by (rule chain_cong) simp
    with c have "chain ?h' xs" by simp
    moreover have "length xs \<le> d" using Suc.prems ys by simp
    ultimately have "snd (set_parent d (hd xs) v ?h') = None" by (rule Suc.IH)
    with Cons ys n show ?thesis by simp
  qed
qed

lemma set_next_appends:
  assumes "chain h xs" and "chain h ys" and "set xs \<inter> set ys = {}"
    and "length xs + length ys \<le> depth"
  shows "snd (set_next depth (hd xs) (hd ys) h) = Inr (hd ys)
    \<and> chain (fst (set_next depth (hd xs) (hd ys) h)) (xs @ ys)
    \<and> (\<forall>a. flow_next (fst (set_next depth (hd xs) (hd ys) h) a) =
              (if a = last xs then Some (hd ys) else flow_next (h a)))"
  using assms
proof (induction h xs arbitrary: depth rule: chain.induct)
  case (1 h)
  then show ?case by simp
next
  case (2 h a)
  then obtain d where d: "depth = Suc d" and dl: "length ys \<le> d" by (cases depth) auto
  let ?new = "hd ys"
  let ?h1 = "h(a := (h a)\<lparr>flow_next := Some ?new\<rparr>)"
  from 2 have an: "flow_next (h a) = None" and ays: "a \<notin> set ys" by auto
  have "chain ?h1 ys = chain h ys" using ays by (intro chain_cong) auto
  with 2 have c1: "chain ?h1 ys" by simp
  define r where "r = set_parent d ?new (flow_parent (?h1 a)) ?h1"
  define h' where "h' = (fst r)(?new := (fst r ?new)\<lparr>flow_previous := Some a\<rparr>)"
  from c1 dl have ok: "snd r = None" unfolding r_def by (rule set_parent_ok)
  have res: "set_next depth a ?new h = (h', Inr ?new)"
    using an ok d unfolding h'_def r_def by (auto simp: Let_def split: prod.splits)
  have nx: "flow_next (h' x) = (if x = a then Some ?new else flow_next (h x))" for x
    unfolding h'_def r_def by (simp add: set_parent_next)
  have "chain h' ys = chain h ys" using ays nx by (intro chain_cong) auto
  with 2 have "chain h' ys" by simp
  with nx have "chain h' ([a] @ ys)" by (cases ys) auto
  with res nx show ?case by simp
next
  case (3 h a b xs)
  then obtain d where d: "depth = Suc d" by (cases depth) auto
  from "3.prems" have n: "flow_next (h a) = Some b" and c: "chain h (b # xs)" by auto
  let ?s = "set_next d b (hd ys) h"
  have eq: "set_next depth (hd (a # b # xs)) (hd ys) h = ?s" using n d by simp
  have ih: "snd ?s = Inr (hd ys) \<and> chain (fst ?s) ((b # xs) @ ys)
     \<and> (\<forall>x. flow_next (fst ?s x) = (if x = last (b # xs) then Some (hd ys) else flow_next (h x)))"
    using "3.IH" [of d] "3.prems" c d by auto
  from "3.prems"(1) have "a \<notin> set (b # xs)" by (rule chain_hd_notin)
  then have ne: "a \<noteq> last (b # xs)" by (metis last_in_set list.distinct(1))
  with ih n have "flow_next (fst ?s a) = Some b" by simp
  with ih have "chain (fst ?s) ((a # b # xs) @ ys)" by simp
  with ih eq show ?case by simp
qed

text \<open>
  On a segment that is its own \<open>next\<close> the parent setter calls itself until
  the frames run out, however many there are.
\<close>

lemma set_parent_loop:
  "flow_next (h a) = Some a \<Longrightarrow> snd (set_parent d a v h) = Some RecursionError"
proof (induction d arbitrary: h)
  case 0
  show ?case by simp
next
  case (Suc d)
  let ?h' = "h(a := (h a)\<lparr>flow_parent := v\<rparr>)"
  from Suc.prems have "flow_next (?h' a) = Some a" by simp
  then have "snd (set_parent d a v ?h') = Some RecursionError" by (rule Suc.IH)
  with Suc.prems show ?case by simp
qed


lemma chain_distinct: "chain h xs \<Longrightarrow> distinct xs"
proof (induction xs)
  case Nil
  show ?case by simp
next
  case (Cons a xs)
  have "a \<notin> set xs" using Cons.prems by (rule chain_hd_notin)
  moreover have "distinct xs"
  proof (cases xs)
    case Nil
    then show ?thesis by simp
  next
    case (Cons b bs)
    with Cons.prems have "chain h xs" by simp
    then show ?thesis by (rule Cons.IH)
  qed
  ultimately show ?case by simp
qed

text \<open>
  Linking the tail of a chain once more, from the head of the chain, makes the
  tail its own \<open>next\<close> and ends in RecursionError, for every number of frames
  that lets \<open>set_next\<close> reach the tail.
\<close>

lemma set_next_tail_again:
  "chain h xs \<Longrightarrow> length xs \<le> depth \<Longrightarrow>
     snd (set_next depth (hd xs) (last xs) h) = Inl RecursionError
     \<and> flow_next (fst (set_next depth (hd xs) (last xs) h) (last xs)) = Some (last xs)"
proof (induction xs arbitrary: depth)
  case Nil
  then show ?case by simp
next
  case (Cons a xs)
  then obtain d where d: "depth = Suc d" by (cases depth) auto
  show ?case
  proof (cases xs)
    case Nil
    let ?h1 = "h(a := (h a)\<lparr>flow_next := Some a\<rparr>)"
    define r where "r = set_parent d a (flow_parent (?h1 a)) ?h1"
    have "flow_next (?h1 a) = Some a" by simp
    then have e: "snd r = Some RecursionError" unfolding r_def by (rule set_parent_loop)
    have n: "flow_next (fst r a) = Some a" unfolding r_def by (simp add: set_parent_next)
    from Cons.prems Nil have "flow_next (h a) = None" by simp
    then have "set_next depth a a h = (fst r, Inl RecursionError)"
      using e d unfolding r_def by (auto simp: Let_def split: prod.splits)
    with n Nil show ?thesis by simp
  next
    case (Cons b bs)
    with Cons.prems have n: "flow_next (h a) = Some b" and c: "chain h xs" by auto
    from n d have "set_next depth a (last xs) h = set_next d (hd xs) (last xs) h"
      using Cons by simp
    moreover have "length xs \<le> d" using Cons.prems d by simp
    ultimately show ?thesis using Cons.IH [OF c, of d] Cons by simp
  qed
qed

text \<open>
  C3, as the code has it.  Take a chain \<open>xs\<close> that starts at the segment
  \<open>set_next\<close> is called on, a chain \<open>ys\<close> that starts at the new segment and
  shares no segment with \<open>xs\<close>, and a frame for every segment.  Then
  \<open>set_next\<close> returns the new segment; the store holds the chain \<open>xs\<close>
  followed by \<open>ys\<close>, singly linked and without a repeated segment; the old
  tail now points to the new segment; and no \<open>next\<close> link that existed has
  been overwritten: the only slot \<open>next\<close> that changed is the old tail's.
\<close>

theorem set_next_appends_at_tail:
  assumes "chain h xs" and "chain h ys" and "set xs \<inter> set ys = {}"
    and "length xs + length ys \<le> depth"
  shows "snd (set_next depth (hd xs) (hd ys) h) = Inr (hd ys)
    \<and> chain (fst (set_next depth (hd xs) (hd ys) h)) (xs @ ys)
    \<and> distinct (xs @ ys)
    \<and> flow_next (fst (set_next depth (hd xs) (hd ys) h) (last xs)) = Some (hd ys)
    \<and> (\<forall>a. flow_next (h a) \<noteq> None \<longrightarrow>
          flow_next (fst (set_next depth (hd xs) (hd ys) h) a) = flow_next (h a))
    \<and> (\<forall>a. a \<noteq> last xs \<longrightarrow>
          flow_next (fst (set_next depth (hd xs) (hd ys) h) a) = flow_next (h a))"
proof -
  let ?h' = "fst (set_next depth (hd xs) (hd ys) h)"
  have main: "snd (set_next depth (hd xs) (hd ys) h) = Inr (hd ys) \<and> chain ?h' (xs @ ys)
    \<and> (\<forall>a. flow_next (?h' a) = (if a = last xs then Some (hd ys) else flow_next (h a)))"
    using assms by (rule set_next_appends)
  then have "distinct (xs @ ys)" using chain_distinct by blast
  moreover have "flow_next (h (last xs)) = None"
    using assms(1) by (induction h xs rule: chain.induct) auto
  ultimately show ?thesis using main by auto
qed

theorem set_next_appends_at_tail_witness:
  "chain fresh_flows [0] \<and> chain fresh_flows [1]
   \<and> snd (set_next 2 0 1 fresh_flows) = Inr 1
   \<and> chain (fst (set_next 2 0 1 fresh_flows)) [0, 1]"
proof -
  have a: "chain fresh_flows [0]" and b: "chain fresh_flows [1]"
    by (simp_all add: fresh_flows_def)
  have c: "set [0::nat] \<inter> set [1] = {}" and d: "length [0::nat] + length [1::nat] \<le> 2"
    by simp_all
  from set_next_appends_at_tail [OF a b c d] a b show ?thesis by simp
qed

text \<open>
  Two calls with the same new segment: the first makes the chain of the
  segments 0 and 1; the second raises RecursionError and leaves segment 1 as
  its own \<open>next\<close>, so the chain has a cycle.
\<close>

theorem set_next_twice_counterexample:
  "chain (fst (set_next 10 0 1 fresh_flows)) [0, 1]
   \<and> snd (set_next 10 0 1 (fst (set_next 10 0 1 fresh_flows))) = Inl RecursionError
   \<and> flow_next (fst (set_next 10 0 1 (fst (set_next 10 0 1 fresh_flows))) 1) = Some 1"
  by (simp add: eval_nat_numeral fresh_flows_def)


subsection \<open>Assignment indexes\<close>

lemma index_of_None: "(index_of x ys = None) = (x \<notin> set ys)"
  by (induction ys) auto

lemma index_of_first:
  "index_of x ys = Some i \<Longrightarrow> i < length ys \<and> ys ! i = x \<and> x \<notin> set (take i ys)"
  by (induction ys arbitrary: i) (auto split: if_splits)

lemma walk_up_path:
  "parents s c path \<Longrightarrow>
     walk_up s (cell_parent (s c)) c acc =
       Some (if consistent s c path then Inr (rev (branch_indexes s c path) @ acc)
             else Inl LookupError)"
proof (induction path arbitrary: c acc)
  case Nil
  then show ?case by (simp add: walk_up.simps)
next
  case (Cons p ps)
  then have par: "cell_parent (s c) = Some p" and rest: "parents s p ps" by auto
  show ?case
  proof (cases "is_tuple_node s p")
    case False
    with par have "walk_up s (cell_parent (s c)) c acc = walk_up s (cell_parent (s p)) p acc"
      by (subst walk_up.simps) simp
    with Cons.IH [OF rest, of acc] False show ?thesis by simp
  next
    case True
    show ?thesis
    proof (cases "index_of c (cell_children (s p))")
      case None
      with par True have "walk_up s (cell_parent (s c)) c acc = Some (Inl LookupError)"
        by (subst walk_up.simps) simp
      with None True show ?thesis by (simp add: index_of_None)
    next
      case (Some i)
      with par True have "walk_up s (cell_parent (s c)) c acc =
          walk_up s (cell_parent (s p)) p ((i div 2) # acc)"
        by (subst walk_up.simps) simp
      moreover from Some have "c \<in> set (cell_children (s p))"
        using index_of_None [of c "cell_children (s p)"] by auto
      ultimately show ?thesis using Cons.IH [OF rest, of "(i div 2) # acc"] True Some by simp
    qed
  qed
qed

text \<open>
  C7.  For a name with a finite chain of ancestors: when some tuple ancestor
  does not have the branch that leads to the name among its children, the
  tree is inconsistent and \<open>assignment_indexes\<close> raises LookupError, the
  structural inconsistency error; when the tree is consistent, it returns for
  each tuple level the halved position of the branch, outermost level first.
\<close>

theorem assignment_indexes_spec:
  assumes "cell_class (s name) = LeafClass Name" and "parents s name path"
  shows "(\<not> consistent s name path \<longrightarrow> assignment_indexes s name = Some (Inl LookupError))
    \<and> (consistent s name path \<longrightarrow>
          assignment_indexes s name = Some (Inr (rev (branch_indexes s name path))))"
  using assms walk_up_path [of s name path "[]"] by (simp add: assignment_indexes_def)

lemma tuple_cells_parents: "parents tuple_cells 7 [6, 4, 1, 0]"
  by (simp add: tuple_cells_def leaf_cell_def node_cell_def)

theorem assignment_indexes_spec_witness:
  "assignment_indexes tuple_cells 7 = Some (Inr [1, 0])
   \<and> assignment_indexes broken_cells 7 = Some (Inl LookupError)"
proof -
  have n: "cell_class (tuple_cells 7) = LeafClass Name"
    and p: "parents tuple_cells 7 [6, 4, 1, 0]"
    and c: "consistent tuple_cells 7 [6, 4, 1, 0]"
    and b: "rev (branch_indexes tuple_cells 7 [6, 4, 1, 0]) = [1, 0]"
    by (simp_all add: tuple_cells_def leaf_cell_def node_cell_def is_tuple_node_def)
  have n': "cell_class (broken_cells 7) = LeafClass Name"
    and p': "parents broken_cells 7 [6, 4, 1, 0]"
    and c': "\<not> consistent broken_cells 7 [6, 4, 1, 0]"
    by (simp_all add: broken_cells_def tuple_cells_def leaf_cell_def node_cell_def
          is_tuple_node_def)
  from assignment_indexes_spec [OF n p] assignment_indexes_spec [OF n' p'] c b c'
  show ?thesis by simp
qed

end
